theory Spec2Isabelle
  imports Complex_Main "HOL-Library.Sublist"
begin

section \<open>The editor panel of \<^verbatim>\<open>tsc/src/core/editor/editor.cpp\<close>\<close>

text \<open>
  The development embeds the class \<^verbatim>\<open>cEditor\<close> and its helper class
  \<^verbatim>\<open>cEditor_Menu_Entry\<close>: the menu file loader, the tag matcher, the asset
  scanner, the incremental layout of a category panel and the fade-out state machine of
  \<^verbatim>\<open>Update\<close>. The GUI toolkit, the XML library, the file system and the settings
  parser are not part of the file; what the editor reads from them is an argument of the
  model, and what it writes to a toolkit window is recorded in the state.
\<close>

subsection \<open>Errors\<close>

text \<open>
  An exception that leaves a function is the \<open>Inl\<close> branch of its result.
  \<open>Runtime_Error\<close> is the \<^verbatim>\<open>std::runtime_error\<close> thrown by \<^verbatim>\<open>get_menu_entry\<close>,
  \<open>Xml_Exception\<close> what \<^verbatim>\<open>xmlpp::DomParser::parse_file\<close> throws. \<open>Invalid_Access\<close> stands
  for a read the source performs unchecked where C++ gives it no meaning: element \<^verbatim>\<open>[0]\<close>
  of an empty node set, or a member call through a null attribute pointer.
\<close>

datatype error =
  Runtime_Error string
| Xml_Exception string
| Invalid_Access

subsection \<open>Strings\<close>

text \<open>
  \<^verbatim>\<open>std::string::find\<close>: the position of the first occurrence of the needle, \<open>None\<close> for
  \<^verbatim>\<open>std::string::npos\<close>.
\<close>

fun string_find :: "string \<Rightarrow> string \<Rightarrow> nat option" where
  "string_find [] needle = (if needle = [] then Some 0 else None)"
| "string_find (c # cs) needle =
     (if prefix needle (c # cs) then Some 0 else map_option Suc (string_find cs needle))"

text \<open>
  Modelled from the spec: \<^verbatim>\<open>string_split\<close> is declared outside the two source files. The
  spec calls the tag strings ';'-delimited; every call passes the one-character delimiter
  \<^verbatim>\<open>";"\<close>, so the model splits at a character and keeps empty pieces.
\<close>

fun string_split :: "string \<Rightarrow> char \<Rightarrow> string list" where
  "string_split [] d = [[]]"
| "string_split (c # cs) d =
     (if c = d then [] # string_split cs d
      else (case string_split cs d of
              [] \<Rightarrow> [[c]]
            | w # ws \<Rightarrow> (c # w) # ws))"

text \<open>
  Modelled from the spec: \<^verbatim>\<open>string_replace_all\<close> is declared outside the two source
  files; its one call replaces the path separator \<^verbatim>\<open>"/"\<close> by \<^verbatim>\<open>"+"\<close>.
\<close>

definition string_replace_all :: "string \<Rightarrow> char \<Rightarrow> char \<Rightarrow> string" where
  "string_replace_all s a b = map (\<lambda>c. if c = a then b else c) s"

subsection \<open>Data\<close>

text \<open>
  A child window of a category panel, as \<^verbatim>\<open>Add_Image_Item\<close> creates it: its type, its
  name, its text or image property and the vertical offset of its position.
\<close>

datatype 'y window =
  StaticText (w_name: string) (w_text: string) (w_y: 'y)
| StaticImage (w_name: string) (w_image: string) (w_y: 'y)

text \<open>
  \<^verbatim>\<open>cEditor_Menu_Entry\<close>. The class declaration (\<^verbatim>\<open>editor.hpp\<close>) is not among the source
  files, so the numeric type of \<^verbatim>\<open>m_element_y\<close> is the parameter \<open>'y\<close>: \<open>int\<close> for
  unbounded integers, \<open>32 word\<close> for a wrapping machine integer. \<open>mp_tab_pane\<close> holds the
  children added to the scrollable pane, in the order of the \<^verbatim>\<open>addChild\<close> calls.
\<close>

record 'y cEditor_Menu_Entry =
  m_name :: string
  m_color :: string
  m_required_tags :: "string list"
  m_header :: bool
  m_element_y :: 'y
  mp_tab_pane :: "'y window list"

text \<open>
  The two fields of \<^verbatim>\<open>cImage_Settings_Data\<close> that the editor reads; its \<^verbatim>\<open>m_name\<close> is
  \<open>m_name_settings\<close> here, apart from the name of a menu entry.
\<close>

record cImage_Settings_Data =
  m_name_settings :: string
  m_editor_tags :: string

text \<open>A \<^verbatim>\<open>CEGUI::UDim\<close>: scale and offset.\<close>

type_synonym UDim = "real \<times> real"

text \<open>What the editor sets on the window \<^verbatim>\<open>mp_editor_tabpane\<close> points to.\<close>

record tabpane =
  pane_x :: UDim
  pane_alpha :: real
  pane_visible :: bool

text \<open>
  \<^verbatim>\<open>cEditor\<close> between \<^verbatim>\<open>Init\<close> and \<^verbatim>\<open>Unload\<close>, where \<^verbatim>\<open>mp_editor_tabpane\<close> points to
  the loaded layout. Every element of \<^verbatim>\<open>m_menu_entries\<close> comes from its own \<^verbatim>\<open>new\<close> in
  \<^verbatim>\<open>parse_menu_file\<close>, so the stored pointers are pairwise distinct: a pointer to a menu
  entry is its position in \<open>m_menu_entries\<close>. The \<^verbatim>\<open>float\<close> members are real numbers.
\<close>

record 'y cEditor =
  mp_editor_tabpane :: tabpane
  m_enabled :: bool
  m_rested :: bool
  m_visibility_timer :: real
  m_mouse_inside :: bool
  m_target_x_position :: UDim
  m_editor_item_tag :: string
  m_menu_entries :: "'y cEditor_Menu_Entry list"

subsection \<open>The tag matcher\<close>

text \<open>
  The inner loop of \<^verbatim>\<open>find_target_menu_entries_for\<close>: every required tag of the menu
  entry \<open>p\<close> is looked up in the requested tags; on a hit the entry is appended unless
  \<^verbatim>\<open>std::find\<close> sees its pointer in the results already.
\<close>

fun scan_required_tags :: "nat \<Rightarrow> string list \<Rightarrow> string list \<Rightarrow> nat list \<Rightarrow> nat list" where
  "scan_required_tags p [] requested_tags results = results"
| "scan_required_tags p (t # ts) requested_tags results =
     scan_required_tags p ts requested_tags
       (if t \<in> set requested_tags
        then (if p \<notin> set results then results @ [p] else results)
        else results)"

text \<open>The outer loop over \<^verbatim>\<open>m_menu_entries\<close>; \<open>p\<close> is the pointer of the first entry left.\<close>

fun scan_menu_entries ::
  "'y cEditor_Menu_Entry list \<Rightarrow> nat \<Rightarrow> string list \<Rightarrow> nat list \<Rightarrow> nat list" where
  "scan_menu_entries [] p requested_tags results = results"
| "scan_menu_entries (e # es) p requested_tags results =
     scan_menu_entries es (Suc p) requested_tags
       (scan_required_tags p (m_required_tags e) requested_tags results)"

definition find_target_menu_entries_for ::
  "'y cEditor \<Rightarrow> cImage_Settings_Data \<Rightarrow> nat list" where
  "find_target_menu_entries_for ed settings =
     scan_menu_entries (m_menu_entries ed) 0
       (string_split (m_editor_tags settings) CHR '';'') []"

subsection \<open>A category panel\<close>

text \<open>
  The constructor of \<^verbatim>\<open>cEditor_Menu_Entry\<close> stores the name and starts the running offset
  at 0; the new scrollable pane has no children. Colour, required tags and header flag are
  set by the caller right after construction.
\<close>

definition new_cEditor_Menu_Entry :: "string \<Rightarrow> ('y::semiring_1) cEditor_Menu_Entry" where
  "new_cEditor_Menu_Entry name =
     \<lparr>m_name = name, m_color = [], m_required_tags = [], m_header = False,
      m_element_y = 0, mp_tab_pane = []\<rparr>"

text \<open>The three \<^verbatim>\<open>static const int\<close> of \<^verbatim>\<open>Add_Image_Item\<close>.\<close>

definition labelheight :: "'y::semiring_1" where
  "labelheight = 24"

definition imageheight :: "'y::semiring_1" where
  "imageheight = 48"

definition yskip :: "'y::semiring_1" where
  "yskip = 24"

text \<open>
  \<^verbatim>\<open>cEditor_Menu_Entry::Add_Image_Item\<close>: a label at the running offset, the image one
  label height below it, both added to the pane, and the running offset moved on.
\<close>

definition Add_Image_Item ::
  "string \<Rightarrow> cImage_Settings_Data \<Rightarrow> ('y::semiring_1) cEditor_Menu_Entry \<Rightarrow> 'y cEditor_Menu_Entry" where
  "Add_Image_Item pixmap_path settings e =
     (let escaped_path = string_replace_all pixmap_path CHR ''/'' CHR ''+'';
          p_label = StaticText (''label-of-'' @ escaped_path) (m_name_settings settings)
                      (m_element_y e);
          p_image = StaticImage (''image-of-'' @ escaped_path) escaped_path
                      (m_element_y e + labelheight)
      in e\<lparr>mp_tab_pane := mp_tab_pane e @ [p_label, p_image],
           m_element_y := m_element_y e + (labelheight + imageheight + yskip)\<rparr>)"

text \<open>A panel after a sequence of \<^verbatim>\<open>Add_Image_Item\<close> calls, first call first.\<close>

fun Add_Image_Items ::
  "(string \<times> cImage_Settings_Data) list \<Rightarrow> ('y::semiring_1) cEditor_Menu_Entry \<Rightarrow> 'y cEditor_Menu_Entry" where
  "Add_Image_Items [] e = e"
| "Add_Image_Items ((pixmap_path, settings) # calls) e =
     Add_Image_Items calls (Add_Image_Item pixmap_path settings e)"

subsection \<open>The asset scanner\<close>

text \<open>
  What the scanner reads from outside, keyed by the pixmap path relative to the pixmaps
  directory: the \<^verbatim>\<open>.png\<close> files that \<^verbatim>\<open>Get_Directory_Files\<close> lists, whether the sibling
  \<^verbatim>\<open>.settings\<close> file exists, and the record that \<^verbatim>\<open>cImage_Settings_Parser::Get\<close> returns
  for it. The source reads \<^verbatim>\<open>m_editor_tags\<close> through the returned pointer at once, so
  what \<^verbatim>\<open>Get\<close> gives is a record, whatever the file holds.
\<close>

record resources =
  image_files :: "string list"
  settings_file_exists :: "string \<Rightarrow> bool"
  settings_parser_Get :: "string \<Rightarrow> cImage_Settings_Data"

text \<open>
  The loop of \<^verbatim>\<open>Try_Add_Editor_Item\<close> over the target menu entries: each pointer of the
  list gets one \<^verbatim>\<open>Add_Image_Item\<close> call.
\<close>

fun add_to_menu_entries ::
  "nat list \<Rightarrow> string \<Rightarrow> cImage_Settings_Data \<Rightarrow> ('y::semiring_1) cEditor \<Rightarrow> 'y cEditor" where
  "add_to_menu_entries [] string_path settings ed = ed"
| "add_to_menu_entries (p # ps) string_path settings ed =
     add_to_menu_entries ps string_path settings
       (ed\<lparr>m_menu_entries :=
             (m_menu_entries ed)[p := Add_Image_Item string_path settings (m_menu_entries ed ! p)]\<rparr>)"

text \<open>
  \<^verbatim>\<open>cEditor::Try_Add_Editor_Item\<close>: the returned flag and the editor after the call.
\<close>

definition Try_Add_Editor_Item ::
  "resources \<Rightarrow> string \<Rightarrow> ('y::semiring_1) cEditor \<Rightarrow> bool \<times> 'y cEditor" where
  "Try_Add_Editor_Item res string_path ed =
     (if \<not> settings_file_exists res string_path then (False, ed)
      else (let p_settings = settings_parser_Get res string_path in
            if string_find (m_editor_tags p_settings) (m_editor_item_tag ed) = None
            then (False, ed)
            else (True,
                   add_to_menu_entries (find_target_menu_entries_for ed p_settings)
                     string_path p_settings ed)))"








subsection \<open>The menu definition loader\<close>

text \<open>An element of the parsed document: its name, its attributes and its child elements.\<close>

datatype xml_element =
  Element (el_name: string) (el_attributes: "(string \<times> string) list")
    (el_children: "xml_element list")

text \<open>The XPath query \<^verbatim>\<open>item\<close> on the root: the child elements of that name, in order.\<close>

definition find_items :: "xml_element \<Rightarrow> xml_element list" where
  "find_items p_root = filter (\<lambda>c. el_name c = ''item'') (el_children p_root)"

text \<open>
  The XPath query \<^verbatim>\<open>property[@name='...']\<close> on an item: the child elements \<^verbatim>\<open>property\<close>
  whose attribute \<^verbatim>\<open>name\<close> has the given value.
\<close>

definition find_property :: "xml_element \<Rightarrow> string \<Rightarrow> xml_element list" where
  "find_property p_node key =
     filter (\<lambda>c. el_name c = ''property'' \<and> map_of (el_attributes c) ''name'' = Some key)
       (el_children p_node)"

text \<open>
  \<^verbatim>\<open>results[0]->get_attribute("value")->get_value()\<close>. The source checks neither that the
  node set has an element nor that the attribute exists.
\<close>

definition first_value :: "xml_element list \<Rightarrow> error + string" where
  "first_value results =
     (case results of
        [] \<Rightarrow> Inl Invalid_Access
      | r # rs \<Rightarrow> (case map_of (el_attributes r) ''value'' of
                     None \<Rightarrow> Inl Invalid_Access
                   | Some v \<Rightarrow> Inr v))"

text \<open>
  The body of the loop of \<^verbatim>\<open>parse_menu_file\<close> up to the \<^verbatim>\<open>push_back\<close>: the menu entry of
  one item node. The colour stays the string it is built from.
\<close>

definition parse_item :: "xml_element \<Rightarrow> error + ('y::semiring_1) cEditor_Menu_Entry" where
  "parse_item p_node =
     (case first_value (find_property p_node ''name'') of
        Inl e \<Rightarrow> Inl e
      | Inr name \<Rightarrow>
         (case first_value (find_property p_node ''tags'') of
            Inl e \<Rightarrow> Inl e
          | Inr tagstr \<Rightarrow>
             (case (if find_property p_node ''color'' \<noteq> []
                    then first_value (find_property p_node ''color'')
                    else Inr ''FFFFFFFF'') of
                Inl e \<Rightarrow> Inl e
              | Inr colorstr \<Rightarrow>
                 (let tags = string_split tagstr CHR '';''
                  in Inr ((new_cEditor_Menu_Entry name)
                            \<lparr>m_color := colorstr,
                             m_required_tags := tags,
                             m_header := (''header'' \<in> set tags)\<rparr>)))))"

fun parse_items ::
  "xml_element list \<Rightarrow> ('y::semiring_1) cEditor \<Rightarrow> error + 'y cEditor" where
  "parse_items [] ed = Inr ed"
| "parse_items (p_node # items) ed =
     (case parse_item p_node of
        Inl e \<Rightarrow> Inl e
      | Inr p_entry \<Rightarrow>
          parse_items items (ed\<lparr>m_menu_entries := m_menu_entries ed @ [p_entry]\<rparr>))"

text \<open>
  \<^verbatim>\<open>cEditor::parse_menu_file\<close>. The argument \<open>parsed\<close> is what
  \<^verbatim>\<open>xmlpp::DomParser::parse_file\<close> does on the menu file: it throws, for a file that is
  absent or not well-formed, or it yields the root element of the document.
\<close>

definition parse_menu_file ::
  "string + xml_element \<Rightarrow> ('y::semiring_1) cEditor \<Rightarrow> error + 'y cEditor" where
  "parse_menu_file parsed ed =
     (case parsed of
        Inl msg \<Rightarrow> Inl (Xml_Exception msg)
      | Inr p_root \<Rightarrow> parse_items (find_items p_root) ed)"

subsection \<open>Lookup by name\<close>

text \<open>
  \<^verbatim>\<open>cEditor::get_menu_entry\<close>: the pointer of the first entry of that name, or the
  \<^verbatim>\<open>std::runtime_error\<close> thrown after the loop.
\<close>

fun get_menu_entry_loop ::
  "'y cEditor_Menu_Entry list \<Rightarrow> nat \<Rightarrow> string \<Rightarrow> error + nat" where
  "get_menu_entry_loop [] p name =
     Inl (Runtime_Error (''Element '' @ [CHR 0x27] @ name @ [CHR 0x27] @ '' not in editor menu list!''))"
| "get_menu_entry_loop (e # es) p name =
     (if m_name e = name then Inr p else get_menu_entry_loop es (Suc p) name)"

definition get_menu_entry :: "'y cEditor \<Rightarrow> string \<Rightarrow> error + nat" where
  "get_menu_entry ed name = get_menu_entry_loop (m_menu_entries ed) 0 name"

subsection \<open>The visibility state machine\<close>

text \<open>
  \<^verbatim>\<open>cEditor::Update\<close>. The global \<^verbatim>\<open>speedfactor_fps\<close> and the speed factor of the frame,
  \<^verbatim>\<open>pFramerate->m_speed_factor\<close>, are arguments. \<open>pane_alpha\<close> and \<open>pane_x\<close> are the
  arguments of the last \<^verbatim>\<open>setAlpha\<close> and \<^verbatim>\<open>setXPosition\<close> calls.
\<close>

definition Update :: "real \<Rightarrow> real \<Rightarrow> 'y cEditor \<Rightarrow> 'y cEditor" where
  "Update speedfactor_fps m_speed_factor ed =
     (if \<not> m_enabled ed then ed
      else if \<not> m_mouse_inside ed then
        (if \<not> m_rested ed then
           (let timeout = speedfactor_fps * 2 in
            if m_visibility_timer ed \<ge> timeout then
              ed\<lparr>mp_editor_tabpane :=
                    (mp_editor_tabpane ed)\<lparr>pane_x := (- 0.19, 0), pane_alpha := 1\<rparr>,
                 m_rested := True,
                 m_visibility_timer := 0\<rparr>
            else
              (let timer = m_visibility_timer ed + m_speed_factor;
                   alpha_max = 1
               in ed\<lparr>m_visibility_timer := timer,
                     mp_editor_tabpane :=
                       (mp_editor_tabpane ed)
                         \<lparr>pane_alpha := alpha_max - ((alpha_max * timer) / timeout)\<rparr>\<rparr>))
         else ed)
      else ed)"

definition on_mouse_enter :: "'y cEditor \<Rightarrow> 'y cEditor" where
  "on_mouse_enter ed =
     ed\<lparr>m_mouse_inside := True,
        m_visibility_timer := 0,
        m_rested := False,
        mp_editor_tabpane :=
          (mp_editor_tabpane ed)\<lparr>pane_alpha := 1, pane_x := m_target_x_position ed\<rparr>\<rparr>"

definition on_mouse_leave :: "'y cEditor \<Rightarrow> 'y cEditor" where
  "on_mouse_leave ed = ed\<lparr>m_mouse_inside := False\<rparr>"

text \<open>
  \<^verbatim>\<open>Enable\<close>, \<^verbatim>\<open>Disable\<close> and \<^verbatim>\<open>Toggle\<close>, without their calls into the audio, cursor and
  animation managers.
\<close>

definition Enable :: "'y cEditor \<Rightarrow> 'y cEditor" where
  "Enable ed =
     (if m_enabled ed then ed
      else ed\<lparr>mp_editor_tabpane := (mp_editor_tabpane ed)\<lparr>pane_visible := True\<rparr>,
              m_enabled := True\<rparr>)"

definition Disable :: "'y cEditor \<Rightarrow> 'y cEditor" where
  "Disable ed =
     (if \<not> m_enabled ed then ed
      else ed\<lparr>mp_editor_tabpane := (mp_editor_tabpane ed)\<lparr>pane_visible := False\<rparr>,
              m_enabled := False\<rparr>)"

definition Toggle :: "'y cEditor \<Rightarrow> 'y cEditor" where
  "Toggle ed = (if m_enabled ed then Disable ed else Enable ed)"

text \<open>
  What can happen to an initialised editor: a frame tick with its speed factor, the two
  hover events of the toolkit, and the three calls of the host.
\<close>

datatype event =
  Tick real
| Mouse_Enter
| Mouse_Leave
| Call_Enable
| Call_Disable
| Call_Toggle

fun handle :: "real \<Rightarrow> event \<Rightarrow> 'y cEditor \<Rightarrow> 'y cEditor" where
  "handle fps (Tick m_speed_factor) ed = Update fps m_speed_factor ed"
| "handle fps Mouse_Enter ed = on_mouse_enter ed"
| "handle fps Mouse_Leave ed = on_mouse_leave ed"
| "handle fps Call_Enable ed = Enable ed"
| "handle fps Call_Disable ed = Disable ed"
| "handle fps Call_Toggle ed = Toggle ed"

fun run :: "real \<Rightarrow> event list \<Rightarrow> 'y cEditor \<Rightarrow> 'y cEditor" where
  "run fps [] ed = ed"
| "run fps (ev # evs) ed = run fps evs (handle fps ev ed)"

text \<open>The editor after each of a sequence of frame ticks, the starting state first.\<close>

fun tick_trace :: "real \<Rightarrow> real list \<Rightarrow> 'y cEditor \<Rightarrow> 'y cEditor list" where
  "tick_trace fps [] ed = [ed]"
| "tick_trace fps (sf # sfs) ed = ed # tick_trace fps sfs (Update fps sf ed)"

subsection \<open>A level editor with two categories\<close>

text \<open>
  The menu of the scenarios of the spec: the category \<open>Enemies\<close> requires the tag
  \<open>enemy\<close>, the category \<open>Ground\<close> one of the tags \<open>ground\<close> and \<open>snow\<close>; the master tag
  of the editor is \<open>level\<close>.
\<close>

definition demo_menu_entries :: "int cEditor_Menu_Entry list" where
  "demo_menu_entries =
     [(new_cEditor_Menu_Entry ''Enemies'')
        \<lparr>m_color := ''FFFF0000'', m_required_tags := [''enemy'']\<rparr>,
      (new_cEditor_Menu_Entry ''Ground'')
        \<lparr>m_color := ''FFFFFFFF'', m_required_tags := [''ground'', ''snow'']\<rparr>]"

definition level_editor :: "int cEditor" where
  "level_editor =
     \<lparr>mp_editor_tabpane = \<lparr>pane_x = (0, 0), pane_alpha = 1, pane_visible = True\<rparr>,
      m_enabled = True, m_rested = False, m_visibility_timer = 0, m_mouse_inside = False,
      m_target_x_position = (0, 0), m_editor_item_tag = ''level'',
      m_menu_entries = demo_menu_entries\<rparr>"

definition boss_settings :: cImage_Settings_Data where
  "boss_settings = \<lparr>m_name_settings = ''Boss'', m_editor_tags = ''level;enemy;ground''\<rparr>"

definition stone_settings :: cImage_Settings_Data where
  "stone_settings = \<lparr>m_name_settings = ''Stone'', m_editor_tags = ''level;ground''\<rparr>"

text \<open>
  The same editor one frame before the timeout of 64 frame units (at 32 frames per
  second), and parked after the timeout.
\<close>

definition fading_editor :: "int cEditor" where
  "fading_editor =
     level_editor\<lparr>m_visibility_timer := 63,
                  mp_editor_tabpane := \<lparr>pane_x = (0, 0), pane_alpha = 1 / 64, pane_visible = True\<rparr>\<rparr>"

definition rested_editor :: "int cEditor" where
  "rested_editor =
     level_editor\<lparr>m_rested := True,
                  mp_editor_tabpane := \<lparr>pane_x = (- 0.19, 0), pane_alpha = 1, pane_visible = True\<rparr>\<rparr>"

subsection \<open>Predicates of the statements\<close>

text \<open>
  While the panel is not rested, the alpha last set is the one \<^verbatim>\<open>Update\<close> computes from
  the timer. \<^verbatim>\<open>on_mouse_enter\<close> sets alpha 1 and timer 0, and \<^verbatim>\<open>Update\<close> sets both
  together, so the predicate holds from the first pointer-enter on.
\<close>

definition fade_consistent :: "real \<Rightarrow> 'y cEditor \<Rightarrow> bool" where
  "fade_consistent fps ed =
     (m_rested ed \<or>
      pane_alpha (mp_editor_tabpane ed) = 1 - m_visibility_timer ed / (fps * 2))"

subsection \<open>Assets of the scenarios\<close>

text \<open>
  A menu whose only entry is a header, and the outside world of a scan: image files, of
  which \<open>raw.png\<close> has no settings file, with the record the parser returns for each.
\<close>

definition header_editor :: "int cEditor" where
  "header_editor =
     level_editor\<lparr>m_menu_entries :=
       [(new_cEditor_Menu_Entry ''---Decoration---'')
          \<lparr>m_color := ''FFFFFFFF'', m_required_tags := [''header''], m_header := True\<rparr>]\<rparr>"

definition demo_resources :: resources where
  "demo_resources =
     \<lparr>image_files = [''ground/stone.png'', ''raw.png'', ''world/map.png'', ''enemy/boss.png''],
      settings_file_exists = (\<lambda>f. f \<noteq> ''raw.png''),
      settings_parser_Get = (\<lambda>f.
        if f = ''ground/stone.png'' then stone_settings
        else if f = ''enemy/boss.png'' then boss_settings
        else if f = ''world/map.png''
          then \<lparr>m_name_settings = ''Map'', m_editor_tags = ''world;enemy''\<rparr>
        else if f = ''banner.png''
          then \<lparr>m_name_settings = ''Banner'', m_editor_tags = ''level;header''\<rparr>
        else if f = ''sub.png''
          then \<lparr>m_name_settings = ''Sub'', m_editor_tags = ''sublevel''\<rparr>
        else \<lparr>m_name_settings = [], m_editor_tags = []\<rparr>)\<rparr>"



subsection \<open>Menu documents of the scenarios\<close>

text \<open>
  A menu document with a header item and two categories, of which one has a colour; a
  document whose only item lacks the \<open>name\<close> property; and an editor with no menu entries
  yet.
\<close>

definition property_element :: "string \<Rightarrow> string \<Rightarrow> xml_element" where
  "property_element key v = Element ''property'' [(''name'', key), (''value'', v)] []"

definition menu_document :: xml_element where
  "menu_document =
     Element ''menu'' []
       [Element ''item'' [] [property_element ''name'' ''---Living---'', property_element ''tags'' ''header''],
        Element ''item'' []
          [property_element ''name'' ''Enemies'', property_element ''color'' ''FFFF0000'',
           property_element ''tags'' ''enemy''],
        Element ''item'' [] [property_element ''name'' ''Ground'', property_element ''tags'' ''ground;snow'']]"

definition menu_document_without_name :: xml_element where
  "menu_document_without_name =
     Element ''menu'' []
       [Element ''item'' [] [property_element ''tags'' ''enemy'', property_element ''color'' ''FFFF0000'']]"

definition unloaded_editor :: "int cEditor" where
  "unloaded_editor = level_editor\<lparr>m_menu_entries := []\<rparr>"

subsection \<open>What the spec says of the menu loader\<close>

text \<open>
  An item node is well formed when it has a \<open>name\<close> and a \<open>tags\<close> property, each with a
  value, and its \<open>color\<close> property, if there is one, has a value too.
\<close>

definition has_value :: "xml_element list \<Rightarrow> bool" where
  "has_value results =
     (case results of
        [] \<Rightarrow> False
      | r # rs \<Rightarrow> map_of (el_attributes r) ''value'' \<noteq> None)"

definition well_formed_item :: "xml_element \<Rightarrow> bool" where
  "well_formed_item p_node =
     (has_value (find_property p_node ''name'')
      \<and> has_value (find_property p_node ''tags'')
      \<and> (find_property p_node ''color'' = [] \<or> has_value (find_property p_node ''color'')))"

text \<open>
  The descriptor of an item node in the words of the spec: the name, the colour or opaque
  white when there is none, the tags split at \<open>;\<close>, and the header flag, true if and only
  if the tag \<open>header\<close> is among the tags. The panel of the descriptor is empty.
\<close>

definition value_of :: "xml_element list \<Rightarrow> string" where
  "value_of results =
     (case results of
        [] \<Rightarrow> []
      | r # rs \<Rightarrow> (case map_of (el_attributes r) ''value'' of None \<Rightarrow> [] | Some v \<Rightarrow> v))"

definition descriptor_of :: "xml_element \<Rightarrow> ('y::semiring_1) cEditor_Menu_Entry" where
  "descriptor_of p_node =
     \<lparr>m_name = value_of (find_property p_node ''name''),
      m_color = (if find_property p_node ''color'' = [] then ''FFFFFFFF''
                 else value_of (find_property p_node ''color'')),
      m_required_tags = string_split (value_of (find_property p_node ''tags'')) CHR '';'',
      m_header = (''header'' \<in> set (string_split (value_of (find_property p_node ''tags'')) CHR '';'')),
      m_element_y = 0,
      mp_tab_pane = []\<rparr>"

section \<open>Properties\<close>

subsection \<open>Auxiliary facts\<close>

lemma scan_required_tags_eq:
  "scan_required_tags p ts requested_tags results =
     (if set ts \<inter> set requested_tags \<noteq> {} \<and> p \<notin> set results then results @ [p] else results)"
  by (induction ts arbitrary: results) auto

lemma filter_upt_shift:
  "filter (\<lambda>q. P ((e # es) ! (q - p))) [Suc p..<Suc p + length es] =
   filter (\<lambda>q. P (es ! (q - Suc p))) [Suc p..<Suc p + length es]"
proof (rule filter_cong[OF refl])
  fix q assume "q \<in> set [Suc p..<Suc p + length es]"
  then have "q - p = Suc (q - Suc p)" by auto
  then show "P ((e # es) ! (q - p)) = P (es ! (q - Suc p))" by simp
qed

lemma scan_menu_entries_eq:
  "\<forall>q \<in> set results. q < p \<Longrightarrow>
   scan_menu_entries es p requested_tags results =
     results @ filter (\<lambda>q. set (m_required_tags (es ! (q - p))) \<inter> set requested_tags \<noteq> {})
                 [p..<p + length es]"
proof (induction es arbitrary: p results)
  case Nil
  then show ?case by simp
next
  case (Cons e es)
  let ?r = "scan_required_tags p (m_required_tags e) requested_tags results"
  have notin: "p \<notin> set results" using Cons.prems by auto
  have r: "?r = results @ (if set (m_required_tags e) \<inter> set requested_tags \<noteq> {} then [p] else [])"
    using notin by (simp add: scan_required_tags_eq)
  have bound: "\<forall>q \<in> set ?r. q < Suc p"
    using Cons.prems by (auto simp: r less_Suc_eq)
  have upt: "[p..<p + length (e # es)] = p # [Suc p..<Suc p + length es]"
    by (subst upt_rec) simp
  show ?case
    unfolding scan_menu_entries.simps Cons.IH[OF bound] upt
    using filter_upt_shift[of "\<lambda>e. set (m_required_tags e) \<inter> set requested_tags \<noteq> {}" e es p]
    by (simp add: r)
qed

lemma find_target_menu_entries_for_eq:
  "find_target_menu_entries_for ed settings =
     filter (\<lambda>p. set (m_required_tags (m_menu_entries ed ! p)) \<inter>
                  set (string_split (m_editor_tags settings) CHR '';'') \<noteq> {})
       [0..<length (m_menu_entries ed)]"
  unfolding find_target_menu_entries_for_def
  by (simp add: scan_menu_entries_eq)

lemma add_to_menu_entries_length:
  "length (m_menu_entries (add_to_menu_entries ps path s ed)) = length (m_menu_entries ed)"
  by (induction ps arbitrary: ed) auto

lemma add_to_menu_entries_nth:
  "distinct ps \<Longrightarrow> \<forall>q \<in> set ps. q < length (m_menu_entries ed) \<Longrightarrow>
   p < length (m_menu_entries ed) \<Longrightarrow>
   m_menu_entries (add_to_menu_entries ps path s ed) ! p =
     (if p \<in> set ps then Add_Image_Item path s (m_menu_entries ed ! p) else m_menu_entries ed ! p)"
proof (induction ps arbitrary: ed)
  case Nil
  then show ?case by simp
next
  case (Cons q ps)
  then show ?case by (auto simp: nth_list_update)
qed

lemma Add_Image_Item_element_y:
  "m_element_y (Add_Image_Item path s e) = m_element_y e + (labelheight + imageheight + yskip)"
  by (simp add: Add_Image_Item_def Let_def)

lemma Add_Image_Items_element_y:
  "m_element_y (Add_Image_Items calls e) =
     m_element_y e + of_nat (length calls) * (labelheight + imageheight + yskip)"
proof (induction calls arbitrary: e)
  case Nil
  show ?case by simp
next
  case (Cons c calls)
  obtain path s where c: "c = (path, s)" by (cases c)
  show ?case
    by (simp add: c Cons.IH Add_Image_Item_element_y algebra_simps)
qed

lemma get_menu_entry_loop_absent:
  "name \<notin> m_name ` set es \<Longrightarrow>
   get_menu_entry_loop es p name =
     Inl (Runtime_Error (''Element '' @ [CHR 0x27] @ name @ [CHR 0x27] @ '' not in editor menu list!''))"
  by (induction es arbitrary: p) auto

lemma get_menu_entry_loop_present:
  "name \<in> m_name ` set es \<Longrightarrow>
   \<exists>i. get_menu_entry_loop es p name = Inr (p + i) \<and> i < length es \<and>
       m_name (es ! i) = name \<and> (\<forall>j < i. m_name (es ! j) \<noteq> name)"
proof (induction es arbitrary: p)
  case Nil
  then show ?case by simp
next
  case (Cons e es)
  show ?case
  proof (cases "m_name e = name")
    case True
    then show ?thesis by (intro exI[of _ 0]) simp
  next
    case False
    with Cons.prems have "name \<in> m_name ` set es" by auto
    from Cons.IH[OF this, of "Suc p"] obtain i where
      i: "get_menu_entry_loop es (Suc p) name = Inr (Suc p + i)" "i < length es"
         "m_name (es ! i) = name" "\<forall>j < i. m_name (es ! j) \<noteq> name"
      by blast
    show ?thesis
      using False i by (intro exI[of _ "Suc i"]) (auto simp: less_Suc_eq_0_disj)
  qed
qed

lemma fade_consistent_on_mouse_enter: "fade_consistent fps (on_mouse_enter ed)"
  by (simp add: fade_consistent_def on_mouse_enter_def)

lemma fade_consistent_Update:
  "fade_consistent fps ed \<Longrightarrow> fade_consistent fps (Update fps sf ed)"
  by (simp add: fade_consistent_def Update_def Let_def)

lemma fade_consistent_handle:
  assumes "fade_consistent fps ed"
  shows "fade_consistent fps (handle fps ev ed)"
proof (cases ev)
  case (Tick sf)
  then show ?thesis using assms by (simp add: fade_consistent_Update)
next
  case Mouse_Enter
  then show ?thesis by (simp add: fade_consistent_on_mouse_enter)
qed (use assms in \<open>auto simp: fade_consistent_def on_mouse_leave_def Enable_def Disable_def Toggle_def\<close>)

lemma fade_consistent_run:
  "fade_consistent fps ed \<Longrightarrow> fade_consistent fps (run fps evs ed)"
  by (induction evs arbitrary: ed) (auto simp: fade_consistent_handle)

lemma Update_rested_mono: "m_rested ed \<Longrightarrow> m_rested (Update fps sf ed)"
  by (simp add: Update_def Let_def)

lemma tick_trace_last_rested:
  "m_rested ed \<Longrightarrow> m_rested (last (tick_trace fps sfs ed))"
  by (induction sfs arbitrary: ed) (auto simp: Update_rested_mono)

lemma tick_trace_nonempty: "tick_trace fps sfs ed \<noteq> []"
  by (cases sfs) auto

lemma hd_tick_trace: "hd (tick_trace fps sfs ed) = ed"
  by (cases sfs) auto

lemma Update_alpha_step:
  assumes "fade_consistent fps ed" "0 < fps" "0 \<le> sf" "\<not> m_rested (Update fps sf ed)"
  shows "pane_alpha (mp_editor_tabpane (Update fps sf ed)) \<le> pane_alpha (mp_editor_tabpane ed)"
proof -
  have nr: "\<not> m_rested ed" using assms(4) Update_rested_mono by blast
  with assms(1) have a: "pane_alpha (mp_editor_tabpane ed) = 1 - m_visibility_timer ed / (fps * 2)"
    by (simp add: fade_consistent_def)
  show ?thesis
  proof (cases "m_enabled ed \<and> \<not> m_mouse_inside ed")
    case False
    then show ?thesis by (auto simp: Update_def)
  next
    case True
    with assms(4) nr have lt: "\<not> m_visibility_timer ed \<ge> fps * 2"
      by (auto simp: Update_def Let_def split: if_splits)
    have "m_visibility_timer ed / (fps * 2) \<le> (m_visibility_timer ed + sf) / (fps * 2)"
      using assms(2,3) by (simp add: divide_right_mono)
    then show ?thesis
      using True nr lt a by (simp add: Update_def Let_def)
  qed
qed

lemma tick_trace_alpha_sorted:
  assumes "0 < fps" "\<forall>sf \<in> set sfs. 0 \<le> sf"
  shows "fade_consistent fps ed \<Longrightarrow> \<not> m_rested (last (tick_trace fps sfs ed)) \<Longrightarrow>
         sorted_wrt (\<ge>) (map (\<lambda>s. pane_alpha (mp_editor_tabpane s)) (tick_trace fps sfs ed))"
  using assms(2)
proof (induction sfs arbitrary: ed)
  case Nil
  then show ?case by simp
next
  case (Cons sf sfs)
  let ?ed' = "Update fps sf ed"
  have last': "\<not> m_rested (last (tick_trace fps sfs ?ed'))"
    using Cons.prems(2) by (simp add: tick_trace_nonempty)
  have nr': "\<not> m_rested ?ed'"
    using last' tick_trace_last_rested by blast
  have fc': "fade_consistent fps ?ed'"
    using Cons.prems(1) by (rule fade_consistent_Update)
  have nonneg: "\<forall>sf \<in> set sfs. 0 \<le> sf" "0 \<le> sf" using Cons.prems(3) by auto
  have IH: "sorted_wrt (\<ge>) (map (\<lambda>s. pane_alpha (mp_editor_tabpane s)) (tick_trace fps sfs ?ed'))"
    using Cons.IH[OF fc' last' nonneg(1)] .
  have step: "pane_alpha (mp_editor_tabpane ?ed') \<le> pane_alpha (mp_editor_tabpane ed)"
    using Update_alpha_step[OF Cons.prems(1) assms(1) nonneg(2) nr'] .
  have hd: "hd (map (\<lambda>s. pane_alpha (mp_editor_tabpane s)) (tick_trace fps sfs ?ed')) =
            pane_alpha (mp_editor_tabpane ?ed')"
    by (simp add: hd_map tick_trace_nonempty hd_tick_trace)
  have all: "\<forall>a \<in> set (map (\<lambda>s. pane_alpha (mp_editor_tabpane s)) (tick_trace fps sfs ?ed')).
               a \<le> pane_alpha (mp_editor_tabpane ?ed')"
  proof (cases "map (\<lambda>s. pane_alpha (mp_editor_tabpane s)) (tick_trace fps sfs ?ed')")
    case Nil
    then show ?thesis by (simp add: tick_trace_nonempty)
  next
    case (Cons a as)
    with IH hd show ?thesis by auto
  qed
  show ?case
    using IH all step by (auto simp del: map_map)
qed

lemma handle_keeps_rested:
  assumes "m_rested ed" and "ev \<noteq> Mouse_Enter"
  shows "m_rested (handle fps ev ed)
         \<and> pane_alpha (mp_editor_tabpane (handle fps ev ed)) = pane_alpha (mp_editor_tabpane ed)"
  using assms
  by (cases ev) (auto simp: Update_def on_mouse_leave_def Enable_def Disable_def Toggle_def)

lemma run_keeps_rested:
  "m_rested ed \<Longrightarrow> Mouse_Enter \<notin> set evs \<Longrightarrow>
   m_rested (run fps evs ed)
   \<and> pane_alpha (mp_editor_tabpane (run fps evs ed)) = pane_alpha (mp_editor_tabpane ed)"
proof (induction evs arbitrary: ed)
  case Nil
  then show ?case by simp
next
  case (Cons ev evs)
  then have ne: "ev \<noteq> Mouse_Enter" and rest: "Mouse_Enter \<notin> set evs" by auto
  from handle_keeps_rested[OF Cons.prems(1) ne, of fps]
  have h: "m_rested (handle fps ev ed)"
    "pane_alpha (mp_editor_tabpane (handle fps ev ed)) = pane_alpha (mp_editor_tabpane ed)"
    by auto
  from Cons.IH[OF h(1) rest] h(2) show ?case by simp
qed

lemma string_find_sublist:
  "string_find hay needle \<noteq> None \<longleftrightarrow> sublist needle hay"
  by (induction hay) (auto simp: sublist_Cons_right)

lemma Try_Add_Editor_Item_parsed:
  assumes "settings_file_exists res path" and "settings_parser_Get res path = s"
    and "p < length (m_menu_entries ed)"
  shows "\<exists>ed'. Try_Add_Editor_Item res path ed =
                  (sublist (m_editor_item_tag ed) (m_editor_tags s), ed')
           \<and> length (m_menu_entries ed') = length (m_menu_entries ed)
           \<and> m_menu_entries ed' ! p =
               (if set (m_required_tags (m_menu_entries ed ! p)) \<inter>
                     set (string_split (m_editor_tags s) CHR '';'') \<noteq> {}
                   \<and> sublist (m_editor_item_tag ed) (m_editor_tags s)
                then Add_Image_Item path s (m_menu_entries ed ! p)
                else m_menu_entries ed ! p)"
proof (cases "string_find (m_editor_tags s) (m_editor_item_tag ed) = None")
  case True
  then have "\<not> sublist (m_editor_item_tag ed) (m_editor_tags s)"
    using string_find_sublist by blast
  then show ?thesis
    using assms True by (simp add: Try_Add_Editor_Item_def)
next
  case False
  then have sub: "sublist (m_editor_item_tag ed) (m_editor_tags s)"
    using string_find_sublist by blast
  let ?r = "find_target_menu_entries_for ed s"
  have eq: "?r = filter (\<lambda>p. set (m_required_tags (m_menu_entries ed ! p)) \<inter>
                  set (string_split (m_editor_tags s) CHR '';'') \<noteq> {})
       [0..<length (m_menu_entries ed)]"
    by (rule find_target_menu_entries_for_eq)
  have d: "distinct ?r" unfolding eq by simp
  have b: "\<forall>q \<in> set ?r. q < length (m_menu_entries ed)" unfolding eq by simp
  have m: "p \<in> set ?r \<longleftrightarrow> set (m_required_tags (m_menu_entries ed ! p)) \<inter>
                  set (string_split (m_editor_tags s) CHR '';'') \<noteq> {}"
    unfolding eq using assms(3) by simp
  have t: "Try_Add_Editor_Item res path ed = (True, add_to_menu_entries ?r path s ed)"
    using assms(1,2) False by (simp add: Try_Add_Editor_Item_def)
  show ?thesis
    unfolding t
    using add_to_menu_entries_nth[OF d b assms(3), of path s] m sub
    by (simp add: add_to_menu_entries_length)
qed








lemma first_value_has_value:
  "has_value results \<Longrightarrow> first_value results = Inr (value_of results)"
  by (auto simp: has_value_def first_value_def value_of_def split: list.splits option.splits)

lemma parse_item_well_formed:
  assumes "well_formed_item p_node"
  shows "parse_item p_node = Inr (descriptor_of p_node)"
proof -
  from assms have n: "first_value (find_property p_node ''name'') =
        Inr (value_of (find_property p_node ''name''))"
    and t: "first_value (find_property p_node ''tags'') =
        Inr (value_of (find_property p_node ''tags''))"
    and c: "find_property p_node ''color'' \<noteq> [] \<Longrightarrow>
        first_value (find_property p_node ''color'') =
        Inr (value_of (find_property p_node ''color''))"
    by (auto simp: well_formed_item_def first_value_has_value)
  show ?thesis
  proof (cases "find_property p_node ''color'' = []")
    case True
    then show ?thesis
      by (simp add: parse_item_def n t descriptor_of_def new_cEditor_Menu_Entry_def Let_def)
  next
    case False
    then show ?thesis
      by (simp add: parse_item_def n t c descriptor_of_def new_cEditor_Menu_Entry_def Let_def)
  qed
qed

lemma parse_items_well_formed:
  "\<forall>p_node \<in> set items. well_formed_item p_node \<Longrightarrow>
   parse_items items ed =
     Inr (ed\<lparr>m_menu_entries := m_menu_entries ed @ map descriptor_of items\<rparr>)"
proof (induction items arbitrary: ed)
  case Nil
  show ?case by simp
next
  case (Cons p_node items)
  then have "well_formed_item p_node" and "\<forall>p_node \<in> set items. well_formed_item p_node"
    by auto
  then show ?case
    using Cons.IH by (simp add: parse_item_well_formed)
qed

section \<open>The claims\<close>

subsection \<open>The tag matcher\<close>

text \<open>
  Claim C2. The tag matcher returns the pointers of exactly the menu entries that have a
  required tag among the tags of the asset, each once however many tags are shared, in the
  order of \<open>m_menu_entries\<close>: the result is that list of positions filtered by the
  intersection test. The placement loop that follows then calls \<open>Add_Image_Item\<close> once
  on each matching entry and leaves every other entry as it was, so an asset matching
  several categories gets one item in each of their panels.
\<close>

theorem tag_matcher_each_category_once:
  "find_target_menu_entries_for ed settings =
     filter (\<lambda>p. set (m_required_tags (m_menu_entries ed ! p)) \<inter>
                  set (string_split (m_editor_tags settings) CHR '';'') \<noteq> {})
       [0..<length (m_menu_entries ed)]
   \<and> distinct (find_target_menu_entries_for ed settings)
   \<and> (\<forall>p < length (m_menu_entries ed).
        m_menu_entries
          (add_to_menu_entries (find_target_menu_entries_for ed settings) path settings ed) ! p =
        (if set (m_required_tags (m_menu_entries ed ! p)) \<inter>
            set (string_split (m_editor_tags settings) CHR '';'') \<noteq> {}
         then Add_Image_Item path settings (m_menu_entries ed ! p)
         else m_menu_entries ed ! p))"
proof -
  let ?P = "\<lambda>p. set (m_required_tags (m_menu_entries ed ! p)) \<inter>
                  set (string_split (m_editor_tags settings) CHR '';'') \<noteq> {}"
  let ?r = "find_target_menu_entries_for ed settings"
  have eq: "?r = filter ?P [0..<length (m_menu_entries ed)]"
    by (rule find_target_menu_entries_for_eq)
  have d: "distinct ?r" unfolding eq by simp
  have b: "\<forall>q \<in> set ?r. q < length (m_menu_entries ed)" unfolding eq by simp
  have m: "\<And>p. p < length (m_menu_entries ed) \<Longrightarrow> p \<in> set ?r \<longleftrightarrow> ?P p"
    unfolding eq by simp
  have "\<forall>p < length (m_menu_entries ed).
        m_menu_entries (add_to_menu_entries ?r path settings ed) ! p =
        (if ?P p then Add_Image_Item path settings (m_menu_entries ed ! p)
         else m_menu_entries ed ! p)"
    using add_to_menu_entries_nth[OF d b] m by simp
  with eq d show ?thesis by blast
qed

theorem tag_matcher_each_category_once_witness:
  "find_target_menu_entries_for level_editor boss_settings = [0, 1]
   \<and> (1::nat) < length (m_menu_entries level_editor)
   \<and> mp_tab_pane
        (m_menu_entries
           (add_to_menu_entries (find_target_menu_entries_for level_editor boss_settings)
              ''enemy/boss.png'' boss_settings level_editor) ! 1) =
       [StaticText ''label-of-enemy+boss.png'' ''Boss'' 0,
        StaticImage ''image-of-enemy+boss.png'' ''enemy+boss.png'' 24]"
proof -
  have len: "(1::nat) < length (m_menu_entries level_editor)"
    by (simp add: level_editor_def demo_menu_entries_def)
  have tags: "string_split (m_editor_tags boss_settings) CHR '';'' = [''level'', ''enemy'', ''ground'']"
    by (simp add: boss_settings_def)
  show ?thesis
    using tag_matcher_each_category_once [of level_editor boss_settings "''enemy/boss.png''"] len
    by (simp add: tags level_editor_def demo_menu_entries_def new_cEditor_Menu_Entry_def
          boss_settings_def Add_Image_Item_def string_replace_all_def labelheight_def Let_def)
qed

subsection \<open>The running offset of a panel\<close>

text \<open>
  Claim C3. The running vertical offset of a category panel is 0 after construction, every
  \<open>Add_Image_Item\<close> call adds the constant label height + image height + gap to it, and
  after \<open>k\<close> calls on a new panel it is \<open>k\<close> times that constant. No other function of
  the model writes \<open>m_element_y\<close>. The statement holds in every numeric type of the
  offset, with the multiplication of that type.
\<close>

theorem running_offset_after_k_placements:
  "m_element_y (new_cEditor_Menu_Entry name :: ('y::semiring_1) cEditor_Menu_Entry) = 0
   \<and> m_element_y (Add_Image_Item path s (e :: 'y cEditor_Menu_Entry)) =
       m_element_y e + (labelheight + imageheight + yskip)
   \<and> m_element_y (Add_Image_Items calls (new_cEditor_Menu_Entry name :: 'y cEditor_Menu_Entry)) =
       of_nat (length calls) * (labelheight + imageheight + yskip)"
  by (simp add: Add_Image_Items_element_y Add_Image_Item_element_y new_cEditor_Menu_Entry_def)

subsection \<open>Lookup by name\<close>

text \<open>
  Claim C9. For a name that no menu entry of the editor carries, \<open>get_menu_entry\<close> ends
  in the runtime error with the message naming the element, and returns no entry; for a
  name that is present it returns the pointer of an entry of that name, the first one in
  the list.
\<close>

theorem get_menu_entry_found_or_error:
  "(name \<notin> m_name ` set (m_menu_entries ed) \<longrightarrow>
      get_menu_entry ed name =
        Inl (Runtime_Error (''Element '' @ [CHR 0x27] @ name @ [CHR 0x27] @ '' not in editor menu list!'')))
   \<and> (name \<in> m_name ` set (m_menu_entries ed) \<longrightarrow>
      (\<exists>p. get_menu_entry ed name = Inr p \<and> p < length (m_menu_entries ed) \<and>
           m_name (m_menu_entries ed ! p) = name \<and>
           (\<forall>q < p. m_name (m_menu_entries ed ! q) \<noteq> name)))"
  unfolding get_menu_entry_def
  using get_menu_entry_loop_absent[of name "m_menu_entries ed" 0]
        get_menu_entry_loop_present[of name "m_menu_entries ed" 0]
  by auto

theorem get_menu_entry_found_or_error_witness:
  "''Water'' \<notin> m_name ` set (m_menu_entries level_editor)
   \<and> get_menu_entry level_editor ''Water'' =
       Inl (Runtime_Error (''Element '' @ [CHR 0x27] @ ''Water'' @ [CHR 0x27] @ '' not in editor menu list!''))
   \<and> ''Ground'' \<in> m_name ` set (m_menu_entries level_editor)
   \<and> get_menu_entry level_editor ''Ground'' = Inr 1"
proof -
  have absent: "''Water'' \<notin> m_name ` set (m_menu_entries level_editor)"
    by (simp add: level_editor_def demo_menu_entries_def new_cEditor_Menu_Entry_def)
  have present: "''Ground'' \<in> m_name ` set (m_menu_entries level_editor)"
    by (simp add: level_editor_def demo_menu_entries_def new_cEditor_Menu_Entry_def)
  have first: "m_name (m_menu_entries level_editor ! 0) \<noteq> ''Ground''"
    by (simp add: level_editor_def demo_menu_entries_def new_cEditor_Menu_Entry_def)
  have len: "length (m_menu_entries level_editor) = 2"
    by (simp add: level_editor_def demo_menu_entries_def)
  from get_menu_entry_found_or_error [of "''Ground''" level_editor] present
  obtain p where p: "get_menu_entry level_editor ''Ground'' = Inr p"
      "p < length (m_menu_entries level_editor)"
      "m_name (m_menu_entries level_editor ! p) = ''Ground''"
    by blast
  have "p = 1"
    using p(2,3) first len by (cases p) auto
  with p(1) have found: "get_menu_entry level_editor ''Ground'' = Inr 1" by simp
  show ?thesis
    using get_menu_entry_found_or_error [of "''Water''" level_editor] absent present found
    by simp
qed

subsection \<open>The visibility state machine\<close>

text \<open>
  Claim C4, as amended. \<open>Update\<close> compares the timer with the timeout before it adds the
  speed factor of the frame. When, with the editor enabled, the pointer outside and the
  panel not rested, the addition of a tick brings the timer to exactly the timeout
  (\<open>speedfactor_fps * 2\<close>), that tick sets alpha to 0 and leaves the panel not rested, at
  its X position and with the timer at the timeout. The tick after it finds the timer at
  the timeout: it sets rested, forces alpha to 1, sets the X position to the offscreen
  offset and resets the timer to 0.
\<close>

theorem timeout_reached_rests_on_next_tick:
  assumes "m_enabled ed" and "\<not> m_mouse_inside ed" and "\<not> m_rested ed"
    and "0 < fps" and "m_visibility_timer ed < fps * 2"
    and "m_visibility_timer ed + sf = fps * 2"
  shows "m_visibility_timer (Update fps sf ed) = fps * 2
         \<and> \<not> m_rested (Update fps sf ed)
         \<and> pane_alpha (mp_editor_tabpane (Update fps sf ed)) = 0
         \<and> pane_x (mp_editor_tabpane (Update fps sf ed)) = pane_x (mp_editor_tabpane ed)
         \<and> m_rested (Update fps sf' (Update fps sf ed))
         \<and> pane_alpha (mp_editor_tabpane (Update fps sf' (Update fps sf ed))) = 1
         \<and> pane_x (mp_editor_tabpane (Update fps sf' (Update fps sf ed))) = (- 0.19, 0)
         \<and> m_visibility_timer (Update fps sf' (Update fps sf ed)) = 0"
proof -
  have first: "Update fps sf ed =
      ed\<lparr>m_visibility_timer := fps * 2,
         mp_editor_tabpane := (mp_editor_tabpane ed)\<lparr>pane_alpha := 0\<rparr>\<rparr>"
    using assms by (simp add: Update_def Let_def)
  show ?thesis
    unfolding first using assms(1-3) by (simp add: Update_def Let_def)
qed

theorem timeout_reached_rests_on_next_tick_witness:
  "m_enabled fading_editor \<and> \<not> m_mouse_inside fading_editor \<and> \<not> m_rested fading_editor
   \<and> (0::real) < 32 \<and> m_visibility_timer fading_editor < 32 * 2
   \<and> m_visibility_timer fading_editor + 1 = 32 * 2
   \<and> \<not> m_rested (Update 32 1 fading_editor)
   \<and> pane_alpha (mp_editor_tabpane (Update 32 1 fading_editor)) = 0
   \<and> m_rested (Update 32 1 (Update 32 1 fading_editor))
   \<and> pane_alpha (mp_editor_tabpane (Update 32 1 (Update 32 1 fading_editor))) = 1
   \<and> pane_x (mp_editor_tabpane (Update 32 1 (Update 32 1 fading_editor))) = (- 0.19, 0)"
proof -
  have h: "m_enabled fading_editor" "\<not> m_mouse_inside fading_editor" "\<not> m_rested fading_editor"
    "m_visibility_timer fading_editor < 32 * 2" "m_visibility_timer fading_editor + 1 = 32 * 2"
    by (simp_all add: fading_editor_def level_editor_def)
  show ?thesis
    using timeout_reached_rests_on_next_tick [OF h(1-3) _ h(4,5), of 1] h
    by simp
qed

text \<open>
  The claim as stated puts the transition on the tick on which the timer reaches the
  timeout. At 32 frames per second and speed factor 1, the tick that takes the timer from
  63 to 64 leaves the panel not rested, with alpha 0, where it was.
\<close>

theorem rest_on_same_tick_counterexample:
  "m_enabled fading_editor \<and> \<not> m_mouse_inside fading_editor \<and> \<not> m_rested fading_editor
   \<and> m_visibility_timer fading_editor < 32 * 2
   \<and> m_visibility_timer (Update 32 1 fading_editor) = 32 * 2
   \<and> \<not> m_rested (Update 32 1 fading_editor)
   \<and> pane_alpha (mp_editor_tabpane (Update 32 1 fading_editor)) \<noteq> 1
   \<and> pane_x (mp_editor_tabpane (Update 32 1 fading_editor)) \<noteq> (- 0.19, 0)
   \<and> m_visibility_timer (Update 32 1 fading_editor) \<noteq> 0"
  by (simp add: Update_def fading_editor_def level_editor_def Let_def)

text \<open>
  Claim C5. Over any run of frame ticks with non-negative speed factors after which the
  panel is still not rested (it has been fading throughout: \<open>Update\<close> never clears
  \<open>m_rested\<close>), the alpha values set, listed from the starting state on, never increase.
  The tick that ends the fade sets alpha back to 1 together with \<open>m_rested\<close>; it is the
  subject of C4 and outside this run. A pointer-enter sets alpha to 1 and the X position to
  the home offset \<open>m_target_x_position\<close> at once. The run starts in a state where alpha
  agrees with the timer; every state the editor reaches after a pointer-enter, by whatever
  events, is such a state.
\<close>

theorem alpha_non_increasing_while_fading:
  assumes "fade_consistent fps ed" and "0 < fps" and "\<forall>sf \<in> set sfs. 0 \<le> sf"
    and "\<not> m_rested (last (tick_trace fps sfs ed))"
  shows "sorted_wrt (\<ge>) (map (\<lambda>s. pane_alpha (mp_editor_tabpane s)) (tick_trace fps sfs ed))
         \<and> pane_alpha (mp_editor_tabpane (on_mouse_enter ed')) = 1
         \<and> pane_x (mp_editor_tabpane (on_mouse_enter ed')) = m_target_x_position ed'
         \<and> (\<forall>evs. fade_consistent fps (run fps evs (on_mouse_enter ed')))"
proof -
  have sorted: "sorted_wrt (\<ge>)
      (map (\<lambda>s. pane_alpha (mp_editor_tabpane s)) (tick_trace fps sfs ed))"
    using tick_trace_alpha_sorted[OF assms(2,3,1,4)] .
  have enter: "pane_alpha (mp_editor_tabpane (on_mouse_enter ed')) = 1
      \<and> pane_x (mp_editor_tabpane (on_mouse_enter ed')) = m_target_x_position ed'"
    by (simp add: on_mouse_enter_def)
  have kept: "\<forall>evs. fade_consistent fps (run fps evs (on_mouse_enter ed'))"
    by (simp add: fade_consistent_run fade_consistent_on_mouse_enter)
  from sorted enter kept show ?thesis by blast
qed

theorem alpha_non_increasing_while_fading_witness:
  "fade_consistent 32 level_editor \<and> (0::real) < 32 \<and> (0::real) \<le> 1
   \<and> m_enabled level_editor \<and> \<not> m_mouse_inside level_editor
   \<and> \<not> m_rested (last (tick_trace 32 [1, 1] level_editor))
   \<and> map (\<lambda>s. pane_alpha (mp_editor_tabpane s)) (tick_trace 32 [1, 1] level_editor) =
       [1, 63 / 64, 31 / 32]
   \<and> sorted_wrt (\<ge>) (map (\<lambda>s. pane_alpha (mp_editor_tabpane s)) (tick_trace 32 [1, 1] level_editor))
   \<and> pane_alpha (mp_editor_tabpane (on_mouse_enter rested_editor)) = 1"
proof -
  have fc: "fade_consistent 32 level_editor"
    by (simp add: fade_consistent_def level_editor_def)
  have nn: "\<forall>sf \<in> set [1, 1 :: real]. 0 \<le> sf" by simp
  have nr: "\<not> m_rested (last (tick_trace 32 [1, 1] level_editor))"
    by (simp add: Update_def level_editor_def Let_def)
  have tr: "map (\<lambda>s. pane_alpha (mp_editor_tabpane s)) (tick_trace 32 [1, 1] level_editor) =
       [1, 63 / 64, 31 / 32]"
    by (simp add: Update_def level_editor_def Let_def)
  have st: "m_enabled level_editor \<and> \<not> m_mouse_inside level_editor"
    by (simp add: level_editor_def)
  show ?thesis
    using alpha_non_increasing_while_fading [OF fc _ nn nr, of rested_editor] fc nr tr st
    by simp
qed

text \<open>
  Claim C6. From a rested panel, after every prefix of a sequence of events without a
  pointer-enter (frame ticks, pointer-leaves, and \<open>Enable\<close>, \<open>Disable\<close>, \<open>Toggle\<close>
  calls), the panel is still rested and alpha is what it was. A pointer-enter clears
  \<open>m_rested\<close>, and it is the only event that does.
\<close>

theorem rested_alpha_fixed_until_mouse_enter:
  assumes "m_rested ed" and "Mouse_Enter \<notin> set evs"
  shows "(\<forall>n. m_rested (run fps (take n evs) ed)
            \<and> pane_alpha (mp_editor_tabpane (run fps (take n evs) ed)) =
                pane_alpha (mp_editor_tabpane ed))
         \<and> \<not> m_rested (on_mouse_enter ed)
         \<and> (\<forall>ev. \<not> m_rested (handle fps ev ed) \<longrightarrow> ev = Mouse_Enter)"
proof -
  have "\<And>n. Mouse_Enter \<notin> set (take n evs)"
    using assms(2) by (meson in_set_takeD)
  then have a: "\<forall>n. m_rested (run fps (take n evs) ed)
            \<and> pane_alpha (mp_editor_tabpane (run fps (take n evs) ed)) =
                pane_alpha (mp_editor_tabpane ed)"
    using run_keeps_rested[OF assms(1)] by blast
  have b: "\<not> m_rested (on_mouse_enter ed)" by (simp add: on_mouse_enter_def)
  have c: "\<forall>ev. \<not> m_rested (handle fps ev ed) \<longrightarrow> ev = Mouse_Enter"
    using handle_keeps_rested[OF assms(1)] by blast
  from a b c show ?thesis by blast
qed

theorem rested_alpha_fixed_until_mouse_enter_witness:
  "m_rested rested_editor
   \<and> Mouse_Enter \<notin> set [Tick 1, Mouse_Leave, Tick 70, Call_Disable, Call_Enable, Tick 1]
   \<and> m_rested (run 32 [Tick 1, Mouse_Leave, Tick 70, Call_Disable, Call_Enable, Tick 1] rested_editor)
   \<and> pane_alpha (mp_editor_tabpane
        (run 32 [Tick 1, Mouse_Leave, Tick 70, Call_Disable, Call_Enable, Tick 1] rested_editor)) = 1
   \<and> \<not> m_rested (handle 32 Mouse_Enter rested_editor)"
proof -
  have r: "m_rested rested_editor" by (simp add: rested_editor_def)
  have a: "pane_alpha (mp_editor_tabpane rested_editor) = 1" by (simp add: rested_editor_def)
  have e: "Mouse_Enter \<notin> set [Tick 1, Mouse_Leave, Tick 70, Call_Disable, Call_Enable, Tick 1]"
    by simp
  have ne: "\<not> m_rested (handle 32 Mouse_Enter rested_editor)"
    by (simp add: on_mouse_enter_def)
  have "m_rested (run 32 (take 6 [Tick 1, Mouse_Leave, Tick 70, Call_Disable, Call_Enable, Tick 1]) rested_editor)
     \<and> pane_alpha (mp_editor_tabpane
        (run 32 (take 6 [Tick 1, Mouse_Leave, Tick 70, Call_Disable, Call_Enable, Tick 1]) rested_editor)) =
        pane_alpha (mp_editor_tabpane rested_editor)"
    using rested_alpha_fixed_until_mouse_enter [OF r e, of 32] by blast
  then show ?thesis using r a e ne by simp
qed

subsection \<open>The asset scanner\<close>

text \<open>
  Claim C1, as amended. An asset without a settings file is placed nowhere. For an asset
  that has a settings file, with the record the parser returns for it, and for every menu
  entry of the editor, the entry gets the asset (one \<open>Add_Image_Item\<close> call) if and only
  if one of its required tags is among the tags of the asset and the tag string of the
  asset contains the master tag of the editor; otherwise the entry stays as it was. The
  header flag of the entry is not consulted: a header entry is treated like every other
  entry.
\<close>

theorem placed_iff_tags_intersect_and_master_tag:
  "(\<not> settings_file_exists res path \<longrightarrow> Try_Add_Editor_Item res path ed = (False, ed))
   \<and> (settings_file_exists res path \<and> settings_parser_Get res path = s
        \<and> p < length (m_menu_entries ed) \<longrightarrow>
      (\<exists>ed'. Try_Add_Editor_Item res path ed =
                  (sublist (m_editor_item_tag ed) (m_editor_tags s), ed')
           \<and> length (m_menu_entries ed') = length (m_menu_entries ed)
           \<and> m_menu_entries ed' ! p =
               (if set (m_required_tags (m_menu_entries ed ! p)) \<inter>
                     set (string_split (m_editor_tags s) CHR '';'') \<noteq> {}
                   \<and> sublist (m_editor_item_tag ed) (m_editor_tags s)
                then Add_Image_Item path s (m_menu_entries ed ! p)
                else m_menu_entries ed ! p)))"
  using Try_Add_Editor_Item_parsed[of res path s p ed]
  by (simp add: Try_Add_Editor_Item_def)

theorem placed_iff_tags_intersect_and_master_tag_witness:
  "settings_file_exists demo_resources ''ground/stone.png''
   \<and> settings_parser_Get demo_resources ''ground/stone.png'' = stone_settings
   \<and> (1::nat) < length (m_menu_entries level_editor)
   \<and> (\<exists>ed'. Try_Add_Editor_Item demo_resources ''ground/stone.png'' level_editor = (True, ed')
          \<and> m_menu_entries ed' ! 0 = demo_menu_entries ! 0
          \<and> m_menu_entries ed' ! 1 =
              Add_Image_Item ''ground/stone.png'' stone_settings (demo_menu_entries ! 1))
   \<and> \<not> settings_file_exists demo_resources ''raw.png''
   \<and> Try_Add_Editor_Item demo_resources ''raw.png'' level_editor = (False, level_editor)"
proof -
  have ex: "settings_file_exists demo_resources ''ground/stone.png''"
    by (simp add: demo_resources_def)
  have get: "settings_parser_Get demo_resources ''ground/stone.png'' = stone_settings"
    by (simp add: demo_resources_def)
  have entries: "m_menu_entries level_editor = demo_menu_entries"
    by (simp add: level_editor_def)
  have p0: "(0::nat) < length (m_menu_entries level_editor)"
    and p1: "(1::nat) < length (m_menu_entries level_editor)"
    by (simp_all add: entries demo_menu_entries_def)
  have master: "sublist (m_editor_item_tag level_editor) (m_editor_tags stone_settings)"
    by (simp add: level_editor_def stone_settings_def sublist_code prefix_code)
  have miss: "set (m_required_tags (m_menu_entries level_editor ! 0)) \<inter>
                set (string_split (m_editor_tags stone_settings) CHR '';'') = {}"
    and hit: "set (m_required_tags (m_menu_entries level_editor ! 1)) \<inter>
                set (string_split (m_editor_tags stone_settings) CHR '';'') \<noteq> {}"
    by (simp_all add: entries demo_menu_entries_def new_cEditor_Menu_Entry_def
          stone_settings_def)
  from placed_iff_tags_intersect_and_master_tag
         [of demo_resources "''ground/stone.png''" level_editor stone_settings 1] ex get p1
  obtain ed' where r: "Try_Add_Editor_Item demo_resources ''ground/stone.png'' level_editor =
        (sublist (m_editor_item_tag level_editor) (m_editor_tags stone_settings), ed')"
    and n1: "m_menu_entries ed' ! 1 =
               (if set (m_required_tags (m_menu_entries level_editor ! 1)) \<inter>
                     set (string_split (m_editor_tags stone_settings) CHR '';'') \<noteq> {}
                   \<and> sublist (m_editor_item_tag level_editor) (m_editor_tags stone_settings)
                then Add_Image_Item ''ground/stone.png'' stone_settings
                       (m_menu_entries level_editor ! 1)
                else m_menu_entries level_editor ! 1)"
    by blast
  from placed_iff_tags_intersect_and_master_tag
         [of demo_resources "''ground/stone.png''" level_editor stone_settings 0] ex get p0 r
  have n0: "m_menu_entries ed' ! 0 =
               (if set (m_required_tags (m_menu_entries level_editor ! 0)) \<inter>
                     set (string_split (m_editor_tags stone_settings) CHR '';'') \<noteq> {}
                   \<and> sublist (m_editor_item_tag level_editor) (m_editor_tags stone_settings)
                then Add_Image_Item ''ground/stone.png'' stone_settings
                       (m_menu_entries level_editor ! 0)
                else m_menu_entries level_editor ! 0)"
    by auto
  have "m_menu_entries ed' ! 0 = m_menu_entries level_editor ! 0"
    using n0 miss by (simp only: simp_thms if_False)
  moreover have "m_menu_entries ed' ! 1 =
      Add_Image_Item ''ground/stone.png'' stone_settings (m_menu_entries level_editor ! 1)"
    using n1 hit master by (simp only: simp_thms if_True)
  moreover have "Try_Add_Editor_Item demo_resources ''ground/stone.png'' level_editor =
      (True, ed')"
    using r master by (simp only: simp_thms)
  ultimately
  have placed: "Try_Add_Editor_Item demo_resources ''ground/stone.png'' level_editor = (True, ed')
          \<and> m_menu_entries ed' ! 0 = demo_menu_entries ! 0
          \<and> m_menu_entries ed' ! 1 =
              Add_Image_Item ''ground/stone.png'' stone_settings (demo_menu_entries ! 1)"
    unfolding entries by blast
  have absent: "\<not> settings_file_exists demo_resources ''raw.png''"
    by (simp add: demo_resources_def)
  have skipped: "Try_Add_Editor_Item demo_resources ''raw.png'' level_editor =
       (False, level_editor)"
    using placed_iff_tags_intersect_and_master_tag
            [of demo_resources "''raw.png''" level_editor] absent
    by simp
  from placed have "\<exists>ed'. Try_Add_Editor_Item demo_resources ''ground/stone.png'' level_editor =
            (True, ed')
          \<and> m_menu_entries ed' ! 0 = demo_menu_entries ! 0
          \<and> m_menu_entries ed' ! 1 =
              Add_Image_Item ''ground/stone.png'' stone_settings (demo_menu_entries ! 1)"
    by blast
  with ex get p1 absent skipped show ?thesis by blast
qed

text \<open>
  The claim as stated keeps items out of header entries. An asset tagged
  \<open>level;header\<close> is placed into the panel of a header entry, whose required tags are
  the single tag \<open>header\<close>.
\<close>

theorem header_entry_receives_item_counterexample:
  "m_header (m_menu_entries header_editor ! 0)
   \<and> Try_Add_Editor_Item demo_resources ''banner.png'' header_editor =
       (True, header_editor\<lparr>m_menu_entries :=
         [\<lparr>m_name = ''---Decoration---'', m_color = ''FFFFFFFF'',
           m_required_tags = [''header''], m_header = True, m_element_y = 96,
           mp_tab_pane = [StaticText ''label-of-banner.png'' ''Banner'' 0,
                          StaticImage ''image-of-banner.png'' ''banner.png'' 24]\<rparr>]\<rparr>)"
  by (simp add: Try_Add_Editor_Item_def demo_resources_def header_editor_def level_editor_def
        find_target_menu_entries_for_def new_cEditor_Menu_Entry_def prefix_code
        Add_Image_Item_def string_replace_all_def labelheight_def imageheight_def yskip_def Let_def)



text \<open>
  Claim C10. For an asset that has a settings file, \<open>Try_Add_Editor_Item\<close> passes the
  master tag test (and returns true) if and only if the master tag occurs as a substring
  of the raw tag string. This is not membership in the split tag list: there is an asset
  that passes the test although the master tag is none of its tags, such as the one with
  the single tag \<open>sublevel\<close> in the level editor.
\<close>

theorem master_tag_test_is_substring_search:
  "(settings_file_exists res path \<and> settings_parser_Get res path = s \<longrightarrow>
      ((\<exists>ed'. Try_Add_Editor_Item res path ed = (True, ed')) \<longleftrightarrow>
       (\<exists>pre post. m_editor_tags s = pre @ m_editor_item_tag ed @ post)))
   \<and> (\<exists>res' path' s' (ed0 :: int cEditor) ed'.
        settings_file_exists res' path' \<and> settings_parser_Get res' path' = s'
        \<and> Try_Add_Editor_Item res' path' ed0 = (True, ed')
        \<and> m_editor_item_tag ed0 \<notin> set (string_split (m_editor_tags s') CHR '';''))"
proof -
  have general: "settings_file_exists res path \<and> settings_parser_Get res path = s \<longrightarrow>
      ((\<exists>ed'. Try_Add_Editor_Item res path ed = (True, ed')) \<longleftrightarrow>
       (\<exists>pre post. m_editor_tags s = pre @ m_editor_item_tag ed @ post))"
    using string_find_sublist[of "m_editor_tags s" "m_editor_item_tag ed"]
    by (auto simp: Try_Add_Editor_Item_def sublist_def)
  let ?s = "\<lparr>m_name_settings = ''Sub'', m_editor_tags = ''sublevel''\<rparr>"
  have "settings_file_exists demo_resources ''sub.png''
        \<and> settings_parser_Get demo_resources ''sub.png'' = ?s
        \<and> Try_Add_Editor_Item demo_resources ''sub.png'' level_editor = (True, level_editor)
        \<and> m_editor_item_tag level_editor \<notin> set (string_split (m_editor_tags ?s) CHR '';'')"
    by (simp add: Try_Add_Editor_Item_def demo_resources_def level_editor_def
          find_target_menu_entries_for_def demo_menu_entries_def new_cEditor_Menu_Entry_def
          prefix_code)
  then have "\<exists>res' path' s' (ed0 :: int cEditor) ed'.
        settings_file_exists res' path' \<and> settings_parser_Get res' path' = s'
        \<and> Try_Add_Editor_Item res' path' ed0 = (True, ed')
        \<and> m_editor_item_tag ed0 \<notin> set (string_split (m_editor_tags s') CHR '';'')"
    by blast
  with general show ?thesis by blast
qed

theorem master_tag_test_is_substring_search_witness:
  "settings_file_exists demo_resources ''sub.png''
   \<and> settings_parser_Get demo_resources ''sub.png'' =
       \<lparr>m_name_settings = ''Sub'', m_editor_tags = ''sublevel''\<rparr>
   \<and> ''sublevel'' = ''sub'' @ m_editor_item_tag level_editor @ ''''
   \<and> (\<exists>ed'. Try_Add_Editor_Item demo_resources ''sub.png'' level_editor = (True, ed'))
   \<and> string_split ''sublevel'' CHR '';'' = [''sublevel'']
   \<and> ''level'' \<notin> set (string_split ''sublevel'' CHR '';'')"
proof -
  let ?s = "\<lparr>m_name_settings = ''Sub'', m_editor_tags = ''sublevel''\<rparr>"
  have ex: "settings_file_exists demo_resources ''sub.png''"
    by (simp add: demo_resources_def)
  have get: "settings_parser_Get demo_resources ''sub.png'' = ?s"
    by (simp add: demo_resources_def)
  have sub: "m_editor_tags ?s = ''sub'' @ m_editor_item_tag level_editor @ ''''"
    by (simp add: level_editor_def)
  then have "\<exists>pre post. m_editor_tags ?s = pre @ m_editor_item_tag level_editor @ post"
    by blast
  then have pass: "\<exists>ed'. Try_Add_Editor_Item demo_resources ''sub.png'' level_editor = (True, ed')"
    using master_tag_test_is_substring_search [of demo_resources "''sub.png''" ?s level_editor]
          ex get
    by blast
  have split: "string_split ''sublevel'' CHR '';'' = [''sublevel'']" by simp
  show ?thesis using ex get sub pass split by simp
qed

subsection \<open>The menu definition loader\<close>

text \<open>
  Claim C8, as amended. When the XML library throws on the menu file, because the file is
  absent or not well-formed, \<open>parse_menu_file\<close> ends in that exception and adds no menu
  entry. When every item node of the document is well formed, it succeeds and appends one
  menu entry per item node, in document order, each the descriptor of its node. Nothing is
  stated for a document with an item node that lacks its name or its tags: the source
  reads both without a check.
\<close>

theorem parse_menu_file_error_or_descriptors:
  "parse_menu_file (Inl msg) ed = Inl (Xml_Exception msg)
   \<and> ((\<forall>p_node \<in> set (find_items p_root). well_formed_item p_node) \<longrightarrow>
        parse_menu_file (Inr p_root) ed =
          Inr (ed\<lparr>m_menu_entries :=
                    m_menu_entries ed @ map descriptor_of (find_items p_root)\<rparr>))"
  by (simp add: parse_menu_file_def parse_items_well_formed)

theorem parse_menu_file_error_or_descriptors_witness:
  "map well_formed_item (find_items menu_document) = [True, True, True]
   \<and> parse_menu_file (Inr menu_document) unloaded_editor =
       Inr (unloaded_editor\<lparr>m_menu_entries :=
         [\<lparr>m_name = ''---Living---'', m_color = ''FFFFFFFF'', m_required_tags = [''header''],
           m_header = True, m_element_y = 0, mp_tab_pane = []\<rparr>,
          \<lparr>m_name = ''Enemies'', m_color = ''FFFF0000'', m_required_tags = [''enemy''],
           m_header = False, m_element_y = 0, mp_tab_pane = []\<rparr>,
          \<lparr>m_name = ''Ground'', m_color = ''FFFFFFFF'', m_required_tags = [''ground'', ''snow''],
           m_header = False, m_element_y = 0, mp_tab_pane = []\<rparr>]\<rparr>)
   \<and> parse_menu_file (Inl ''menu.xml: no such file'') unloaded_editor =
       Inl (Xml_Exception ''menu.xml: no such file'')"
proof -
  have wf: "map well_formed_item (find_items menu_document) = [True, True, True]"
    by (simp add: find_items_def menu_document_def well_formed_item_def has_value_def
          find_property_def property_element_def)
  have all: "\<forall>p_node \<in> set (find_items menu_document). well_formed_item p_node"
    by (simp add: find_items_def menu_document_def well_formed_item_def has_value_def
          find_property_def property_element_def)
  have entries: "m_menu_entries unloaded_editor @ map descriptor_of (find_items menu_document) =
         [\<lparr>m_name = ''---Living---'', m_color = ''FFFFFFFF'', m_required_tags = [''header''],
           m_header = True, m_element_y = 0, mp_tab_pane = []\<rparr>,
          \<lparr>m_name = ''Enemies'', m_color = ''FFFF0000'', m_required_tags = [''enemy''],
           m_header = False, m_element_y = 0, mp_tab_pane = []\<rparr>,
          \<lparr>m_name = ''Ground'', m_color = ''FFFFFFFF'', m_required_tags = [''ground'', ''snow''],
           m_header = False, m_element_y = 0, mp_tab_pane = []\<rparr>]"
    by (simp add: unloaded_editor_def find_items_def menu_document_def descriptor_of_def
          value_of_def find_property_def property_element_def)
  show ?thesis
    using parse_menu_file_error_or_descriptors
            [of "''menu.xml: no such file''" unloaded_editor menu_document] all wf
    by (simp add: entries)
qed

text \<open>
  The claim as stated has the loader fail with a load error on an item node without name.
  For such a node the query for the \<open>name\<close> property yields the empty node set, and the
  source takes its element 0: the run ends in that unchecked read, not in an error the
  loader raises.
\<close>

theorem missing_name_is_no_load_error_counterexample:
  "find_items menu_document_without_name =
     [Element ''item'' []
        [property_element ''tags'' ''enemy'', property_element ''color'' ''FFFF0000'']]
   \<and> find_property (hd (find_items menu_document_without_name)) ''name'' = []
   \<and> parse_menu_file (Inr menu_document_without_name) unloaded_editor = Inl Invalid_Access"
  by (simp add: parse_menu_file_def find_items_def menu_document_without_name_def
        parse_item_def first_value_def find_property_def property_element_def)

end
